theory Spec2Isabelle
  imports Main
begin

section \<open>Exceptions as values\<close>

text \<open>
  Every \<^verbatim>\<open>raise\<close> of the Python source, and every exception the interpreter raises
  on its behalf (an undefined name, a missing key, \<^verbatim>\<open>max\<close> of an empty sequence), is a
  value of \<open>pyerr\<close>; a function that can raise returns \<open>pyerr + 'a\<close>, with \<open>Inl\<close>
  the exception.
\<close>

datatype pyerr =
    TranspilerError string
  | NameError string
  | KeyError
  | ValueError string
  | TypeError string
  | NotImplementedError
  | AttributeError string

section \<open>The program graph of the scheduling passes\<close>

text \<open>
  A wire of the graph is a \<open>Qubit\<close> (an A-track) or a \<open>Clbit\<close> (a B-track); the number
  is the identity of the bit object.
\<close>

datatype bit = Qubit nat | Clbit nat

fun is_Qubit :: "bit \<Rightarrow> bool" where
  "is_Qubit (Qubit _) = True"
| "is_Qubit (Clbit _) = False"

text \<open>
  \<^verbatim>\<open>node.op.duration\<close> is \<^verbatim>\<open>None\<close>, a number, or a \<^verbatim>\<open>ParameterExpression\<close>.
  A parameter of an operation is a number or an unbound parameter, on which
  \<^verbatim>\<open>float(p)\<close> raises \<^verbatim>\<open>TypeError\<close>.
\<close>

datatype duration = Resolved int | Parameterized string

datatype param = Num int | Unbound string

record operation =
  op_name :: string
  op_duration :: "duration option"
  op_params :: "param list"
  op_is_Measure :: bool
  op_condition_bits :: "bit list"
  op_unit :: "string option"

record dagnode =
  node_op :: operation
  qargs :: "bit list"
  cargs :: "bit list"

text \<open>
  \<^verbatim>\<open>dag.calibrations\<close> is a dictionary from the operation name to a dictionary from
  \<^verbatim>\<open>(tuple(indices), tuple(params))\<close> to a schedule, of which the passes read the
  \<^verbatim>\<open>duration\<close>. Dictionaries keep insertion order, so they are association lists.
\<close>

type_synonym calibrations = "(string \<times> ((nat list \<times> int list) \<times> duration option) list) list"

record dagcircuit =
  dag_qregs :: "(string \<times> bit list) list"
  dag_cregs :: "(string \<times> bit list) list"
  dag_qubits :: "bit list"
  dag_clbits :: "bit list"
  op_nodes :: "dagnode list"
  dag_name :: "string option"
  dag_metadata :: "(string \<times> string) list"
  dag_calibrations :: calibrations
  dag_duration :: "int option"
  dag_unit :: "string option"

text \<open>
  Modelled from the spec: the class \<^verbatim>\<open>DAGCircuit\<close> (\<^verbatim>\<open>qiskit.dagcircuit\<close>) is not among
  the sources. The graph declares its tracks through its register groups; \<open>op_nodes\<close>
  is the list \<^verbatim>\<open>topological_op_nodes()\<close> yields (a topological order, ties broken by
  insertion order). \<open>DAGCircuit_new\<close> is the constructor, \<open>add_qreg\<close> and \<open>add_creg\<close>
  declare a group and those of its tracks that are not declared yet,
  \<open>apply_operation_back\<close> and \<open>apply_operation_front\<close> add a node at the end and at the
  start, and \<open>has_calibration_for\<close> tells whether the calibration table has an entry
  for (operation kind, track indices, parameter values).
\<close>

definition DAGCircuit_new :: dagcircuit where
  "DAGCircuit_new =
     \<lparr>dag_qregs = [], dag_cregs = [], dag_qubits = [], dag_clbits = [], op_nodes = [],
      dag_name = None, dag_metadata = [], dag_calibrations = [], dag_duration = None,
      dag_unit = None\<rparr>"

definition add_qreg :: "string \<times> bit list \<Rightarrow> dagcircuit \<Rightarrow> dagcircuit" where
  "add_qreg qreg d =
     d\<lparr>dag_qregs := dag_qregs d @ [qreg],
       dag_qubits := fold (\<lambda>b bs. if b \<in> set bs then bs else bs @ [b]) (snd qreg) (dag_qubits d)\<rparr>"

definition add_creg :: "string \<times> bit list \<Rightarrow> dagcircuit \<Rightarrow> dagcircuit" where
  "add_creg creg d =
     d\<lparr>dag_cregs := dag_cregs d @ [creg],
       dag_clbits := fold (\<lambda>b bs. if b \<in> set bs then bs else bs @ [b]) (snd creg) (dag_clbits d)\<rparr>"

definition apply_operation_back :: "operation \<Rightarrow> bit list \<Rightarrow> bit list \<Rightarrow> dagcircuit \<Rightarrow> dagcircuit" where
  "apply_operation_back opn qs cs d =
     d\<lparr>op_nodes := op_nodes d @ [\<lparr>node_op = opn, qargs = qs, cargs = cs\<rparr>]\<rparr>"

definition apply_operation_front :: "operation \<Rightarrow> bit list \<Rightarrow> bit list \<Rightarrow> dagcircuit \<Rightarrow> dagcircuit" where
  "apply_operation_front opn qs cs d =
     d\<lparr>op_nodes := \<lparr>node_op = opn, qargs = qs, cargs = cs\<rparr> # op_nodes d\<rparr>"

text \<open>\<^verbatim>\<open>Delay(delta, time_unit)\<close>: the idle operation.\<close>

definition Delay :: "int \<Rightarrow> string option \<Rightarrow> operation" where
  "Delay delta time_unit =
     \<lparr>op_name = ''delay'', op_duration = Some (Resolved delta), op_params = [Num delta],
      op_is_Measure = False, op_condition_bits = [], op_unit = time_unit\<rparr>"

text \<open>\<^verbatim>\<open>[bit_indices[qarg] for qarg in node.qargs]\<close>: a missing key raises.\<close>

fun lookup_indices :: "(bit \<times> nat) list \<Rightarrow> bit list \<Rightarrow> pyerr + nat list" where
  "lookup_indices bit_indices [] = Inr []"
| "lookup_indices bit_indices (q # qs) =
     (case map_of bit_indices q of
        None \<Rightarrow> Inl KeyError
      | Some i \<Rightarrow>
          (case lookup_indices bit_indices qs of
             Inl e \<Rightarrow> Inl e
           | Inr is \<Rightarrow> Inr (i # is)))"

text \<open>
  \<^verbatim>\<open>tuple(float(p) for p in node.op.params)\<close>. The number is kept as it is, which is
  what \<^verbatim>\<open>float\<close> gives for an integer of magnitude up to \<open>2 ^ 53\<close>; beyond, \<^verbatim>\<open>float\<close>
  rounds, and the model does not follow it.
\<close>

fun float_params :: "param list \<Rightarrow> pyerr + int list" where
  "float_params [] = Inr []"
| "float_params (Num x # ps) =
     (case float_params ps of Inl e \<Rightarrow> Inl e | Inr xs \<Rightarrow> Inr (x # xs))"
| "float_params (Unbound v # ps) = Inl (TypeError ''ParameterExpression with unbound parameters cannot be cast to a float'')"

definition has_calibration_for :: "dagcircuit \<Rightarrow> (bit \<times> nat) list \<Rightarrow> dagnode \<Rightarrow> bool" where
  "has_calibration_for dag bit_indices node =
     (case map_of (dag_calibrations dag) (op_name (node_op node)) of
        None \<Rightarrow> False
      | Some table \<Rightarrow>
          (case (lookup_indices bit_indices (qargs node), float_params (op_params (node_op node))) of
             (Inr is, Inr ps) \<Rightarrow> map_of table (is, ps) \<noteq> None
           | _ \<Rightarrow> False))"

text \<open>
  \<^verbatim>\<open>{q: index for index, q in enumerate(dag.qubits)}\<close>: a later occurrence of a key
  overwrites an earlier one, so the list is reversed for \<open>map_of\<close>, which takes the
  first.
\<close>

definition make_bit_indices :: "bit list \<Rightarrow> (bit \<times> nat) list" where
  "make_bit_indices qs = rev (zip qs [0..<length qs])"

text \<open>The list written in a message as Python prints it: \<^verbatim>\<open>[0, 1]\<close>.\<close>

fun digit_char :: "nat \<Rightarrow> char" where
  "digit_char n = char_of (48 + n)"

fun show_nat_fuel :: "nat \<Rightarrow> nat \<Rightarrow> string" where
  "show_nat_fuel 0 n = [digit_char (n mod 10)]"
| "show_nat_fuel (Suc k) n =
     (if n < 10 then [digit_char n] else show_nat_fuel k (n div 10) @ [digit_char (n mod 10)])"

definition show_nat :: "nat \<Rightarrow> string" where
  "show_nat n = show_nat_fuel n n"

fun join_comma :: "string list \<Rightarrow> string" where
  "join_comma [] = []"
| "join_comma [s] = s"
| "join_comma (s # t # ss) = s @ '', '' @ join_comma (t # ss)"

definition show_indices :: "nat list \<Rightarrow> string" where
  "show_indices is = ''['' @ join_comma (map show_nat is) @ '']''"

section \<open>The scheduling passes\<close>

text \<open>
  The property set maps a name to a value; a missing key reads as \<^verbatim>\<open>None\<close>.
\<close>

type_synonym property_set = "string \<rightharpoonup> string"

text \<open>
  The state of the loop over the nodes: the graph under construction and the
  dictionary \<^verbatim>\<open>idle_after\<close> (\<^verbatim>\<open>idle_before\<close> in the latest-first pass).
\<close>

record sched_state =
  new_dag :: dagcircuit
  idle :: "(bit \<times> int) list"

text \<open>
  Lines 75 to 85 of \<^verbatim>\<open>asap.py\<close> (74 to 84 of \<^verbatim>\<open>alap.py\<close>): a node without a duration
  takes it from the calibration table, and fails when the table has none.
\<close>

definition calibration_duration :: "dagcircuit \<Rightarrow> dagnode \<Rightarrow> nat list \<Rightarrow> pyerr + duration option" where
  "calibration_duration dag node indices =
     (case map_of (dag_calibrations dag) (op_name (node_op node)) of
        None \<Rightarrow> Inl KeyError
      | Some table \<Rightarrow>
          (case float_params (op_params (node_op node)) of
             Inl e \<Rightarrow> Inl e
           | Inr ps \<Rightarrow>
               (case map_of table (indices, ps) of
                  None \<Rightarrow> Inl KeyError
                | Some entry \<Rightarrow> Inr entry)))"

definition validate_duration :: "dagcircuit \<Rightarrow> (bit \<times> nat) list \<Rightarrow> dagnode \<Rightarrow> pyerr + duration" where
  "validate_duration dag bit_indices node =
     (case op_duration (node_op node) of
        Some d \<Rightarrow> Inr d
      | None \<Rightarrow>
          (case lookup_indices bit_indices (qargs node) of
             Inl e \<Rightarrow> Inl e
           | Inr indices \<Rightarrow>
               (case (if has_calibration_for dag bit_indices node
                      then calibration_duration dag node indices
                      else Inr None) of
                  Inl e \<Rightarrow> Inl e
                | Inr (Some d) \<Rightarrow> Inr d
                | Inr None \<Rightarrow>
                    Inl (TranspilerError
                      (''Duration of '' @ op_name (node_op node) @ '' on qubits '' @
                       show_indices indices @ '' is not found.'')))))"

text \<open>
  The body of the loop. After the duration is validated, line 86 of \<^verbatim>\<open>asap.py\<close>
  (85 of \<^verbatim>\<open>alap.py\<close>) evaluates
  \<^verbatim>\<open>isinstance(node.op.duration, ParameterExpression)\<close>. Neither module imports or
  defines the name \<^verbatim>\<open>ParameterExpression\<close> (they import \<^verbatim>\<open>warnings\<close>, \<^verbatim>\<open>Delay\<close>,
  \<^verbatim>\<open>Qubit\<close>, \<^verbatim>\<open>Measure\<close>, \<^verbatim>\<open>DAGCircuit\<close>, \<^verbatim>\<open>TranspilerError\<close>,
  \<^verbatim>\<open>TimeUnitConversion\<close> and \<^verbatim>\<open>BaseSchedulerTransform\<close>), so the call raises
  \<^verbatim>\<open>NameError\<close> for every node that has a duration, whatever the duration is. The
  rest of the body (which moreover reads the names \<^verbatim>\<open>clbit_writeable\<close>,
  \<^verbatim>\<open>clbit_readable\<close>, \<^verbatim>\<open>itertools\<close>, \<^verbatim>\<open>qubit_time_available\<close>,
  \<^verbatim>\<open>pad_with_delays\<close>, \<^verbatim>\<open>t0\<close> and \<^verbatim>\<open>t1\<close>, none of them bound anywhere) is never
  reached, so no iteration of the loop completes.
\<close>

definition asap_node ::
  "dagcircuit \<Rightarrow> (bit \<times> nat) list \<Rightarrow> string option \<Rightarrow> dagnode \<Rightarrow> sched_state \<Rightarrow> pyerr + sched_state" where
  "asap_node dag bit_indices time_unit node st =
     (case validate_duration dag bit_indices node of
        Inl e \<Rightarrow> Inl e
      | Inr d \<Rightarrow> Inl (NameError ''ParameterExpression''))"

definition alap_node ::
  "dagcircuit \<Rightarrow> (bit \<times> nat) list \<Rightarrow> string option \<Rightarrow> dagnode \<Rightarrow> sched_state \<Rightarrow> pyerr + sched_state" where
  "alap_node dag bit_indices time_unit node st =
     (case validate_duration dag bit_indices node of
        Inl e \<Rightarrow> Inl e
      | Inr d \<Rightarrow> Inl (NameError ''ParameterExpression''))"

text \<open>The \<^verbatim>\<open>for\<close> loop over the nodes: the first exception ends it.\<close>

fun schedule_loop ::
  "(dagnode \<Rightarrow> sched_state \<Rightarrow> pyerr + sched_state) \<Rightarrow> dagnode list \<Rightarrow> sched_state \<Rightarrow> pyerr + sched_state" where
  "schedule_loop body [] st = Inr st"
| "schedule_loop body (node # nodes) st =
     (case body node st of
        Inl e \<Rightarrow> Inl e
      | Inr st' \<Rightarrow> schedule_loop body nodes st')"

text \<open>\<^verbatim>\<open>max(values)\<close> raises \<^verbatim>\<open>ValueError\<close> on an empty sequence.\<close>

fun py_max :: "int list \<Rightarrow> pyerr + int" where
  "py_max [] = Inl (ValueError ''max() arg is an empty sequence'')"
| "py_max (x # xs) = Inr (fold max xs x)"

text \<open>
  \<^verbatim>\<open>{q: 0 for q in dag.qubits + dag.clbits}\<close>: each key once, at the place of its
  first occurrence.
\<close>

definition initial_idle :: "dagcircuit \<Rightarrow> (bit \<times> int) list" where
  "initial_idle dag = map (\<lambda>q. (q, 0)) (rev (remdups (rev (dag_qubits dag @ dag_clbits dag))))"

text \<open>The padding loops that end the passes (lines 118 to 122, and 116 to 120).\<close>

definition pad_back :: "int \<Rightarrow> string option \<Rightarrow> bit \<times> int \<Rightarrow> dagcircuit \<Rightarrow> dagcircuit" where
  "pad_back circuit_duration time_unit item d =
     (let delta = circuit_duration - snd item
      in if \<not> (delta > 0 \<and> is_Qubit (fst item)) then d
         else apply_operation_back (Delay delta time_unit) [fst item] [] d)"

definition pad_front :: "int \<Rightarrow> string option \<Rightarrow> bit \<times> int \<Rightarrow> dagcircuit \<Rightarrow> dagcircuit" where
  "pad_front circuit_duration time_unit item d =
     (let delta = circuit_duration - snd item
      in if \<not> (delta > 0 \<and> is_Qubit (fst item)) then d
         else apply_operation_front (Delay delta time_unit) [fst item] [] d)"

definition initial_state :: "dagcircuit \<Rightarrow> sched_state" where
  "initial_state dag =
     \<lparr>new_dag = fold add_creg (dag_cregs dag) (fold add_qreg (dag_qregs dag) DAGCircuit_new),
      idle = initial_idle dag\<rparr>"

definition ASAP_run :: "property_set \<Rightarrow> dagcircuit \<Rightarrow> pyerr + dagcircuit" where
  "ASAP_run property_set dag =
     (if length (dag_qregs dag) \<noteq> 1 \<or> map_of (dag_qregs dag) ''q'' = None
      then Inl (TranspilerError ''ASAP schedule runs on physical circuits only'')
      else
        let time_unit = property_set ''time_unit'';
            bit_indices = make_bit_indices (dag_qubits dag)
        in case schedule_loop (asap_node dag bit_indices time_unit) (op_nodes dag)
                  (initial_state dag) of
             Inl e \<Rightarrow> Inl e
           | Inr st \<Rightarrow>
               (case py_max (map snd (idle st)) of
                  Inl e \<Rightarrow> Inl e
                | Inr circuit_duration \<Rightarrow>
                    Inr ((fold (pad_back circuit_duration time_unit) (idle st) (new_dag st))
                          \<lparr>dag_name := dag_name dag,
                           dag_metadata := dag_metadata dag,
                           dag_calibrations := dag_calibrations dag,
                           dag_duration := Some circuit_duration,
                           dag_unit := time_unit\<rparr>)))"

definition ALAP_run :: "property_set \<Rightarrow> dagcircuit \<Rightarrow> pyerr + dagcircuit" where
  "ALAP_run property_set dag =
     (if length (dag_qregs dag) \<noteq> 1 \<or> map_of (dag_qregs dag) ''q'' = None
      then Inl (TranspilerError ''ALAP schedule runs on physical circuits only'')
      else
        let time_unit = property_set ''time_unit'';
            bit_indices = make_bit_indices (dag_qubits dag)
        in case schedule_loop (alap_node dag bit_indices time_unit) (rev (op_nodes dag))
                  (initial_state dag) of
             Inl e \<Rightarrow> Inl e
           | Inr st \<Rightarrow>
               (case py_max (map snd (idle st)) of
                  Inl e \<Rightarrow> Inl e
                | Inr circuit_duration \<Rightarrow>
                    Inr ((fold (pad_front circuit_duration time_unit) (idle st) (new_dag st))
                          \<lparr>dag_name := dag_name dag,
                           dag_metadata := dag_metadata dag,
                           dag_calibrations := dag_calibrations dag,
                           dag_duration := Some circuit_duration,
                           dag_unit := time_unit\<rparr>)))"

text \<open>The graphs of the concrete scenarios.\<close>

definition plain_op :: "string \<Rightarrow> duration option \<Rightarrow> operation" where
  "plain_op n d =
     \<lparr>op_name = n, op_duration = d, op_params = [], op_is_Measure = False,
      op_condition_bits = [], op_unit = Some ''dt''\<rparr>"

definition one_track_dag :: "dagnode list \<Rightarrow> dagcircuit" where
  "one_track_dag nodes =
     \<lparr>dag_qregs = [(''q'', [Qubit 0])], dag_cregs = [], dag_qubits = [Qubit 0],
      dag_clbits = [], op_nodes = nodes, dag_name = Some ''circuit'', dag_metadata = [],
      dag_calibrations = [], dag_duration = None, dag_unit = None\<rparr>"

definition chain_dag :: dagcircuit where
  "chain_dag =
     one_track_dag
       [\<lparr>node_op = plain_op ''A'' (Some (Resolved 10)), qargs = [Qubit 0], cargs = []\<rparr>,
        \<lparr>node_op = plain_op ''B'' (Some (Resolved 20)), qargs = [Qubit 0], cargs = []\<rparr>,
        \<lparr>node_op = plain_op ''C'' (Some (Resolved 10)), qargs = [Qubit 0], cargs = []\<rparr>]"

definition dt_properties :: property_set where
  "dt_properties = [''time_unit'' \<mapsto> ''dt'']"

section \<open>The pass manager\<close>

text \<open>
  An element handed to the manager is a pass (\<^verbatim>\<open>BasePass\<close>, with the name of its
  class), a flow controller with its \<^verbatim>\<open>passes\<close>, or an object that is neither (with
  its class as Python prints it). The \<^verbatim>\<open>passes\<close> argument has the type
  \<^verbatim>\<open>Union[BasePass, List[BasePass], FlowController]\<close>: one object or a list.
\<close>

datatype pass_obj = BasePass string | FlowController "pass_obj list" | NotAPass string

datatype passes_arg = OnePass pass_obj | PassList "pass_obj list"

text \<open>
  The values of \<^verbatim>\<open>**flow_controller_conditions\<close> are callables on the property set.
\<close>

type_synonym flow_controller_conditions = "(string \<times> (property_set \<Rightarrow> bool)) list"

record pass_set =
  passes :: passes_arg
  flow_controllers :: flow_controller_conditions

record PassManager =
  pass_sets :: "pass_set list"
  max_iteration :: nat
  pm_property_set :: "property_set option"

text \<open>
  \<^verbatim>\<open>_normalize_passes\<close>: the loop over the elements, with the recursive call on the
  passes of a nested flow controller; \<open>None\<close> when nothing is raised.
\<close>

fun normalize_elements :: "pass_obj list \<Rightarrow> pyerr option" where
  "normalize_elements [] = None"
| "normalize_elements (FlowController inner # rest) =
     (case normalize_elements inner of
        Some e \<Rightarrow> Some e
      | None \<Rightarrow> normalize_elements rest)"
| "normalize_elements (BasePass n # rest) = normalize_elements rest"
| "normalize_elements (NotAPass c # rest) =
     Some (TranspilerError (c @ '' is not a BasePass or FlowController instance ''))"

definition normalize_passes :: "passes_arg \<Rightarrow> pyerr + passes_arg" where
  "normalize_passes ps =
     (case ps of
        OnePass (FlowController inner) \<Rightarrow> Inr ps
      | OnePass (BasePass n) \<Rightarrow>
          (case normalize_elements [BasePass n] of
             Some e \<Rightarrow> Inl e
           | None \<Rightarrow> Inr (PassList [BasePass n]))
      | OnePass (NotAPass c) \<Rightarrow> Inl (TypeError (c @ '' object is not iterable''))
      | PassList elements \<Rightarrow>
          (case normalize_elements elements of
             Some e \<Rightarrow> Inl e
           | None \<Rightarrow> Inr (PassList elements)))"

text \<open>
  The methods of \<^verbatim>\<open>PassManager\<close> take the object and return it updated. The
  methods that the subclass overrides without calling them are defined on the record
  \<open>PassManager\<close>; those it inherits or reaches through \<^verbatim>\<open>super()\<close> are defined on every
  extension of the record. \<^verbatim>\<open>if max_iteration:\<close> holds for a number other than zero.
  When a method raises, the result is the exception alone: what the method had already
  assigned on the object is not part of it.
\<close>

definition PassManager_append ::
  "PassManager \<Rightarrow> passes_arg \<Rightarrow> nat option \<Rightarrow> flow_controller_conditions \<Rightarrow>
   pyerr + PassManager" where
  "PassManager_append self ps max_iter conditions =
     (let self1 = (case max_iter of
                     None \<Rightarrow> self
                   | Some n \<Rightarrow> if n \<noteq> 0 then self\<lparr>max_iteration := n\<rparr> else self)
      in case normalize_passes ps of
           Inl e \<Rightarrow> Inl e
         | Inr normalized \<Rightarrow>
             Inr (self1\<lparr>pass_sets := pass_sets self1 @
                          [\<lparr>passes = normalized, flow_controllers = conditions\<rparr>]\<rparr>))"

text \<open>\<^verbatim>\<open>__init__(passes=None, max_iteration=1000)\<close>.\<close>

definition PassManager_init :: "passes_arg option \<Rightarrow> nat option \<Rightarrow> pyerr + PassManager" where
  "PassManager_init ps max_iter =
     (let self = \<lparr>pass_sets = [],
                  max_iteration = (case max_iter of None \<Rightarrow> 1000 | Some n \<Rightarrow> n),
                  pm_property_set = None\<rparr>
      in case ps of
           None \<Rightarrow> Inr self
         | Some p \<Rightarrow> PassManager_append self p None [])"

text \<open>
  A Python index into a list of length \<open>n\<close>: negative indices count from the end;
  \<open>None\<close> is \<^verbatim>\<open>IndexError\<close>.
\<close>

definition py_index :: "nat \<Rightarrow> int \<Rightarrow> nat option" where
  "py_index n i =
     (if 0 \<le> i \<and> i < int n then Some (nat i)
      else if - int n \<le> i \<and> i < 0 then Some (nat (int n + i))
      else None)"

definition show_int :: "int \<Rightarrow> string" where
  "show_int i = (if i < 0 then ''-'' @ show_nat (nat (- i)) else show_nat (nat i))"

definition PassManager_replace ::
  "PassManager \<Rightarrow> int \<Rightarrow> passes_arg \<Rightarrow> nat option \<Rightarrow> flow_controller_conditions \<Rightarrow>
   pyerr + PassManager" where
  "PassManager_replace self index ps max_iter conditions =
     (let self1 = (case max_iter of
                     None \<Rightarrow> self
                   | Some n \<Rightarrow> if n \<noteq> 0 then self\<lparr>max_iteration := n\<rparr> else self)
      in case normalize_passes ps of
           Inl e \<Rightarrow> Inl e
         | Inr normalized \<Rightarrow>
             (case py_index (length (pass_sets self1)) index of
                None \<Rightarrow> Inl (TranspilerError (''Index to replace '' @ show_int index @ '' does not exists''))
              | Some k \<Rightarrow>
                  Inr (self1\<lparr>pass_sets := (pass_sets self1)
                               [k := \<lparr>passes = normalized, flow_controllers = conditions\<rparr>]\<rparr>)))"

definition PassManager_remove :: "PassManager \<Rightarrow> int \<Rightarrow> pyerr + PassManager" where
  "PassManager_remove self index =
     (case py_index (length (pass_sets self)) index of
        None \<Rightarrow> Inl (TranspilerError (''Index to replace '' @ show_int index @ '' does not exists''))
      | Some k \<Rightarrow>
          Inr (self\<lparr>pass_sets := take k (pass_sets self) @ drop (Suc k) (pass_sets self)\<rparr>))"

definition PassManager_setitem :: "PassManager \<Rightarrow> int \<Rightarrow> passes_arg \<Rightarrow> pyerr + PassManager" where
  "PassManager_setitem self index item = PassManager_replace self index item None []"

definition PassManager_len :: "'a PassManager_scheme \<Rightarrow> nat" where
  "PassManager_len self = length (pass_sets self)"

text \<open>
  \<^verbatim>\<open>__add__\<close>: the right operand is a pass manager (of any subclass, of which only
  \<^verbatim>\<open>_pass_sets\<close> is read) or something to append. A \<^verbatim>\<open>TranspilerError\<close> of the append
  becomes a \<^verbatim>\<open>TypeError\<close> (its message, which prints the two classes, is shortened
  here); any other exception passes through.
\<close>

datatype operand = IsPassManager PassManager | IsPasses passes_arg

definition PassManager_add :: "PassManager \<Rightarrow> operand \<Rightarrow> pyerr + PassManager" where
  "PassManager_add self other =
     (case PassManager_init None (Some (max_iteration self)) of
        Inl e \<Rightarrow> Inl e
      | Inr new_passmanager \<Rightarrow>
          (case other of
             IsPassManager pm \<Rightarrow>
               Inr (new_passmanager\<lparr>pass_sets := pass_sets self @ pass_sets pm\<rparr>)
           | IsPasses ps \<Rightarrow>
               (case PassManager_append
                       (new_passmanager\<lparr>pass_sets := pass_sets new_passmanager @ pass_sets self\<rparr>)
                       ps None [] of
                  Inl (TranspilerError m) \<Rightarrow>
                    Inl (TypeError ''unsupported operand type + for PassManager'')
                | Inl e \<Rightarrow> Inl e
                | Inr pm \<Rightarrow> Inr pm)))"

text \<open>
  Modelled from the spec: the class \<^verbatim>\<open>RunningPassManager\<close>
  (\<^verbatim>\<open>qiskit/transpiler/runningpassmanager.py\<close>) is not among the sources. A running
  pass manager is created with the iteration ceiling and collects the pass sets
  appended to it; what its \<^verbatim>\<open>run\<close> does with a circuit is the parameter \<open>rpm_run\<close> of
  the functions below, which returns the transformed circuit and the property set of
  the run.
\<close>

record RunningPassManager =
  rpm_max_iteration :: nat
  working_list :: "pass_set list"

definition RunningPassManager_new :: "nat \<Rightarrow> RunningPassManager" where
  "RunningPassManager_new max_iter = \<lparr>rpm_max_iteration = max_iter, working_list = []\<rparr>"

definition RunningPassManager_append ::
  "passes_arg \<Rightarrow> flow_controller_conditions \<Rightarrow> RunningPassManager \<Rightarrow> RunningPassManager" where
  "RunningPassManager_append ps conditions rpm =
     rpm\<lparr>working_list := working_list rpm @ [\<lparr>passes = ps, flow_controllers = conditions\<rparr>]\<rparr>"

definition create_running_passmanager :: "'a PassManager_scheme \<Rightarrow> RunningPassManager" where
  "create_running_passmanager self =
     fold (\<lambda>pass_set. RunningPassManager_append (passes pass_set) (flow_controllers pass_set))
       (pass_sets self) (RunningPassManager_new (max_iteration self))"

text \<open>
  \<^verbatim>\<open>run\<close> takes one circuit or a list of circuits. The method
  \<^verbatim>\<open>_create_running_passmanager\<close> is looked up on the object, so the subclass's
  version runs for a staged manager: it is the parameter \<open>create\<close>, which returns the
  running pass manager and the object as the call leaves it.
\<close>

datatype 'c circuits = OneCircuit 'c | CircuitList "'c list"

type_synonym ('c, 'cb) rpm_run =
  "RunningPassManager \<Rightarrow> 'c \<Rightarrow> string option \<Rightarrow> 'cb option \<Rightarrow> pyerr + ('c \<times> property_set)"

definition run_single_circuit ::
  "('a PassManager_scheme \<Rightarrow> RunningPassManager \<times> 'a PassManager_scheme) \<Rightarrow> ('c, 'cb) rpm_run \<Rightarrow>
   'a PassManager_scheme \<Rightarrow> 'c \<Rightarrow> string option \<Rightarrow> 'cb option \<Rightarrow>
   pyerr + ('c \<times> 'a PassManager_scheme)" where
  "run_single_circuit create rpm_run self circuit output_name callback =
     (let (running_passmanager, self1) = create self
      in case rpm_run running_passmanager circuit output_name callback of
           Inl e \<Rightarrow> Inl e
         | Inr (result, properties) \<Rightarrow> Inr (result, self1\<lparr>pm_property_set := Some properties\<rparr>))"

text \<open>
  \<^verbatim>\<open>_run_several_circuits\<close> drops the output name and the callback; each task
  (\<^verbatim>\<open>_in_parallel\<close>) works on a copy of the manager and runs one circuit, and the
  results come in the order of the circuits.
\<close>

fun in_parallel_map :: "('c \<Rightarrow> pyerr + 'c) \<Rightarrow> 'c list \<Rightarrow> pyerr + 'c list" where
  "in_parallel_map task [] = Inr []"
| "in_parallel_map task (c # cs) =
     (case task c of
        Inl e \<Rightarrow> Inl e
      | Inr r \<Rightarrow>
          (case in_parallel_map task cs of
             Inl e \<Rightarrow> Inl e
           | Inr rs \<Rightarrow> Inr (r # rs)))"

definition run_several_circuits ::
  "('a PassManager_scheme \<Rightarrow> RunningPassManager \<times> 'a PassManager_scheme) \<Rightarrow> ('c, 'cb) rpm_run \<Rightarrow>
   'a PassManager_scheme \<Rightarrow> 'c list \<Rightarrow> pyerr + 'c list" where
  "run_several_circuits create rpm_run self cs =
     in_parallel_map
       (\<lambda>circuit. case rpm_run (fst (create self)) circuit None None of
                    Inl e \<Rightarrow> Inl e
                  | Inr (result, properties) \<Rightarrow> Inr result)
       cs"

definition run_with ::
  "('a PassManager_scheme \<Rightarrow> RunningPassManager \<times> 'a PassManager_scheme) \<Rightarrow> ('c, 'cb) rpm_run \<Rightarrow>
   'a PassManager_scheme \<Rightarrow> 'c circuits \<Rightarrow> string option \<Rightarrow> 'cb option \<Rightarrow>
   pyerr + ('c circuits \<times> 'a PassManager_scheme)" where
  "run_with create rpm_run self cs output_name callback =
     (if pass_sets self = [] \<and> output_name = None \<and> callback = None then Inr (cs, self)
      else
        (case cs of
           OneCircuit c \<Rightarrow>
             (case run_single_circuit create rpm_run self c output_name callback of
                Inl e \<Rightarrow> Inl e
              | Inr (result, self1) \<Rightarrow> Inr (OneCircuit result, self1))
         | CircuitList l \<Rightarrow>
             (case l of
                [c] \<Rightarrow>
                  (case run_single_circuit create rpm_run self c output_name callback of
                     Inl e \<Rightarrow> Inl e
                   | Inr (result, self1) \<Rightarrow> Inr (OneCircuit result, self1))
              | _ \<Rightarrow>
                  (case run_several_circuits create rpm_run self l of
                     Inl e \<Rightarrow> Inl e
                   | Inr results \<Rightarrow> Inr (CircuitList results, self)))))"

definition PassManager_run ::
  "('c, 'cb) rpm_run \<Rightarrow> PassManager \<Rightarrow> 'c circuits \<Rightarrow> string option \<Rightarrow> 'cb option \<Rightarrow>
   pyerr + ('c circuits \<times> PassManager)" where
  "PassManager_run rpm_run self cs output_name callback =
     run_with (\<lambda>pm. (create_running_passmanager pm, pm)) rpm_run self cs output_name callback"

section \<open>The staged pass manager\<close>

text \<open>
  A \<^verbatim>\<open>StagedPassManager\<close> is a \<^verbatim>\<open>PassManager\<close> with the list of its stages and, as
  instance attributes, the slots \<^verbatim>\<open>pre_<stage>\<close>, \<^verbatim>\<open><stage>\<close> and \<^verbatim>\<open>post_<stage>\<close>,
  each \<^verbatim>\<open>None\<close> or a pass manager. \<open>slots\<close> is the part of the instance dictionary
  that holds them: an attribute that was never assigned is absent. The names of the
  slots are taken to differ from the names of the other attributes and of the methods
  of the class. A slot holds a value here, where Python holds a reference: the model
  covers the slot assignments, not a later mutation of an assigned manager.
\<close>

record StagedPassManager = PassManager +
  stages :: "string list"
  slots :: "string \<rightharpoonup> PassManager option"

text \<open>\<^verbatim>\<open>getattr(self, name, None)\<close>.\<close>

definition getattr_slot :: "StagedPassManager \<Rightarrow> string \<Rightarrow> PassManager option" where
  "getattr_slot self attr = (case slots self attr of None \<Rightarrow> None | Some v \<Rightarrow> v)"

text \<open>\<^verbatim>\<open>_update_passmanager\<close>: the loop over the stages, extending \<^verbatim>\<open>_pass_sets\<close>.\<close>

definition extend_with :: "PassManager option \<Rightarrow> pass_set list \<Rightarrow> pass_set list" where
  "extend_with pm sets = (case pm of None \<Rightarrow> sets | Some m \<Rightarrow> sets @ pass_sets m)"

definition update_stage :: "StagedPassManager \<Rightarrow> string \<Rightarrow> pass_set list \<Rightarrow> pass_set list" where
  "update_stage self stage sets =
     extend_with (getattr_slot self (''post_'' @ stage))
       (extend_with (getattr_slot self stage)
          (extend_with (getattr_slot self (''pre_'' @ stage)) sets))"

definition update_passmanager :: "StagedPassManager \<Rightarrow> StagedPassManager" where
  "update_passmanager self = self\<lparr>pass_sets := fold (update_stage self) (stages self) []\<rparr>"

text \<open>\<^verbatim>\<open>attr.startswith(prefix)\<close>; \<^verbatim>\<open>attr[4:]\<close> is \<open>drop 4 attr\<close>.\<close>

definition startswith :: "string \<Rightarrow> string \<Rightarrow> bool" where
  "startswith s prefix = (take (length prefix) s = prefix)"

text \<open>
  \<^verbatim>\<open>__setattr__\<close> for a slot: the attribute is stored, then the condition of lines
  447 to 451 decides whether the pass sets are flattened again.
\<close>

definition Staged_setattr :: "StagedPassManager \<Rightarrow> string \<Rightarrow> PassManager option \<Rightarrow> StagedPassManager" where
  "Staged_setattr self attr v =
     (let self1 = self\<lparr>slots := (slots self)(attr \<mapsto> v)\<rparr>
      in if attr \<in> set (stages self1)
            \<or> (startswith attr ''pre_'' \<and> drop 4 attr \<notin> set (stages self1))
            \<or> (startswith attr ''post_'' \<and> drop 5 attr \<notin> set (stages self1))
         then update_passmanager self1
         else self1)"

text \<open>
  \<^verbatim>\<open>invalid_stage_regex\<close> finds a white-space character or one of
  \<^verbatim>\<open>+ - * / \ % < > @ ! ~ ^ & : [ ] { } ( )\<close>. A character is a code point below 256
  here; of these, \<^verbatim>\<open>\s\<close> matches 9 to 13, 28 to 32, 133 and 160.
\<close>

definition invalid_stage_char :: "char \<Rightarrow> bool" where
  "invalid_stage_char c =
     ((of_char c :: nat) \<in> {9, 10, 11, 12, 13, 28, 29, 30, 31, 32, 133, 160}
      \<or> c \<in> set ''+-*/%<>@!~^&:[]{}()'' \<or> (of_char c :: nat) = 92)"

definition invalid_stage :: "string \<Rightarrow> bool" where
  "invalid_stage stage = list_ex invalid_stage_char stage"

definition default_stages :: "string list" where
  "default_stages =
     [''init'', ''layout'', ''routing'', ''translation'', ''optimization'', ''scheduling'']"

text \<open>The two loops of \<^verbatim>\<open>__init__\<close>: the empty slots, then the keyword arguments.\<close>

definition init_stage_slots :: "string \<Rightarrow> StagedPassManager \<Rightarrow> StagedPassManager" where
  "init_stage_slots stage self =
     Staged_setattr (Staged_setattr (Staged_setattr self (''pre_'' @ stage) None) stage None)
       (''post_'' @ stage) None"

fun init_kwargs :: "(string \<times> PassManager option) list \<Rightarrow> StagedPassManager \<Rightarrow> pyerr + StagedPassManager" where
  "init_kwargs [] self = Inr self"
| "init_kwargs ((stage, pm) # rest) self =
     (if stage \<notin> set (stages self)
         \<and> \<not> (startswith stage ''pre_'' \<and> drop 4 stage \<in> set (stages self))
         \<and> \<not> (startswith stage ''post_'' \<and> drop 5 stage \<in> set (stages self))
      then Inl (AttributeError (stage @ '' is not a valid stage.''))
      else init_kwargs rest (Staged_setattr self stage pm))"

definition Staged_init ::
  "string list option \<Rightarrow> (string \<times> PassManager option) list \<Rightarrow> pyerr + StagedPassManager" where
  "Staged_init stage_names kwargs =
     (case (case stage_names of
              None \<Rightarrow> Inr default_stages
            | Some names \<Rightarrow>
                (case filter invalid_stage names of
                   [] \<Rightarrow> Inr names
                 | invalid_stages \<Rightarrow>
                     Inl (ValueError (''The following stage names are not valid: '' @
                                      join_comma invalid_stages)))) of
        Inl e \<Rightarrow> Inl e
      | Inr names \<Rightarrow>
          (case init_kwargs kwargs
                  (fold init_stage_slots names
                     \<lparr>pass_sets = [], max_iteration = 1000, pm_property_set = None,
                      stages = names, slots = Map.empty\<rparr>) of
             Inl e \<Rightarrow> Inl e
           | Inr self \<Rightarrow> Inr (update_passmanager self)))"

text \<open>The operations on single pass sets, overridden to raise.\<close>

definition Staged_append ::
  "StagedPassManager \<Rightarrow> passes_arg \<Rightarrow> nat option \<Rightarrow> flow_controller_conditions \<Rightarrow>
   pyerr + StagedPassManager" where
  "Staged_append self ps max_iter conditions = Inl NotImplementedError"

definition Staged_replace ::
  "StagedPassManager \<Rightarrow> int \<Rightarrow> passes_arg \<Rightarrow> nat option \<Rightarrow> flow_controller_conditions \<Rightarrow>
   pyerr + StagedPassManager" where
  "Staged_replace self index ps max_iter conditions = Inl NotImplementedError"

definition Staged_remove :: "StagedPassManager \<Rightarrow> int \<Rightarrow> pyerr + StagedPassManager" where
  "Staged_remove self index = Inl NotImplementedError"

definition Staged_setitem :: "StagedPassManager \<Rightarrow> int \<Rightarrow> passes_arg \<Rightarrow> pyerr + StagedPassManager" where
  "Staged_setitem self index item = Inl NotImplementedError"

definition Staged_add :: "StagedPassManager \<Rightarrow> operand \<Rightarrow> pyerr + PassManager" where
  "Staged_add self other = Inl NotImplementedError"

text \<open>The methods that flatten the stages again before the inherited method runs.\<close>

definition Staged_len :: "StagedPassManager \<Rightarrow> nat \<times> StagedPassManager" where
  "Staged_len self = (let self1 = update_passmanager self in (PassManager_len self1, self1))"

definition Staged_create_running_passmanager ::
  "StagedPassManager \<Rightarrow> RunningPassManager \<times> StagedPassManager" where
  "Staged_create_running_passmanager self =
     (let self1 = update_passmanager self in (create_running_passmanager self1, self1))"

definition Staged_run ::
  "('c, 'cb) rpm_run \<Rightarrow> StagedPassManager \<Rightarrow> 'c circuits \<Rightarrow> string option \<Rightarrow> 'cb option \<Rightarrow>
   pyerr + ('c circuits \<times> StagedPassManager)" where
  "Staged_run rpm_run self cs output_name callback =
     run_with Staged_create_running_passmanager rpm_run (update_passmanager self) cs
       output_name callback"

section \<open>The execution of a pass set\<close>

text \<open>
  Modelled from the spec: the flow controllers and the loop that executes the pass
  sets (\<^verbatim>\<open>qiskit/transpiler/runningpassmanager.py\<close>) are not among the sources. A pass
  is \<^verbatim>\<open>run(graph, property_set) -> graph'\<close>, and may fail and may write the property
  set. A sequence runs its passes in list order and a failing pass aborts it. A pass set
  with a \<^verbatim>\<open>repeat_while\<close> predicate runs the sequence, then evaluates the predicate on
  the property set, and repeats until the predicate is false or the iteration ceiling
  is reached, which is not an error; else a pass set with a \<^verbatim>\<open>condition\<close> runs the
  sequence once if the predicate holds and passes graph and property set through
  otherwise; else the sequence runs once. \<open>do_while\<close> and \<open>run_pass_set\<close> also return
  the number of times the sequence ran.
\<close>

type_synonym 'g exec_state = "'g \<times> property_set"

type_synonym 'g pass_run = "'g exec_state \<Rightarrow> pyerr + 'g exec_state"

fun run_sequence :: "'g pass_run list \<Rightarrow> 'g exec_state \<Rightarrow> pyerr + 'g exec_state" where
  "run_sequence [] s = Inr s"
| "run_sequence (p # ps) s =
     (case p s of
        Inl e \<Rightarrow> Inl e
      | Inr s' \<Rightarrow> run_sequence ps s')"

fun do_while ::
  "nat \<Rightarrow> (property_set \<Rightarrow> bool) \<Rightarrow> 'g pass_run list \<Rightarrow> 'g exec_state \<Rightarrow>
   pyerr + ('g exec_state \<times> nat)" where
  "do_while 0 predicate ps s = Inr (s, 0)"
| "do_while (Suc n) predicate ps s =
     (case run_sequence ps s of
        Inl e \<Rightarrow> Inl e
      | Inr s' \<Rightarrow>
          (if predicate (snd s')
           then (case do_while n predicate ps s' of
                   Inl e \<Rightarrow> Inl e
                 | Inr (s'', k) \<Rightarrow> Inr (s'', Suc k))
           else Inr (s', 1)))"

record 'g exec_pass_set =
  set_passes :: "'g pass_run list"
  set_condition :: "(property_set \<Rightarrow> bool) option"
  set_repeat_while :: "(property_set \<Rightarrow> bool) option"

definition run_pass_set ::
  "nat \<Rightarrow> 'g exec_pass_set \<Rightarrow> 'g exec_state \<Rightarrow> pyerr + ('g exec_state \<times> nat)" where
  "run_pass_set max_iterations pass_set s =
     (case set_repeat_while pass_set of
        Some predicate \<Rightarrow> do_while max_iterations predicate (set_passes pass_set) s
      | None \<Rightarrow>
          (case set_condition pass_set of
             Some predicate \<Rightarrow>
               (if predicate (snd s)
                then (case run_sequence (set_passes pass_set) s of
                        Inl e \<Rightarrow> Inl e
                      | Inr s' \<Rightarrow> Inr (s', 1))
                else Inr (s, 0))
           | None \<Rightarrow>
               (case run_sequence (set_passes pass_set) s of
                  Inl e \<Rightarrow> Inl e
                | Inr s' \<Rightarrow> Inr (s', 1))))"

section \<open>Concrete graphs and managers\<close>

text \<open>A graph with one node whose duration is a parameter expression.\<close>

definition parameterized_dag :: dagcircuit where
  "parameterized_dag =
     one_track_dag
       [\<lparr>node_op = plain_op ''delay'' (Some (Parameterized ''t'')), qargs = [Qubit 0], cargs = []\<rparr>]"


text \<open>
  A graph without operations whose register \<^verbatim>\<open>q\<close> is empty and whose one classical
  track belongs to no register.
\<close>

definition loose_clbit_dag :: dagcircuit where
  "loose_clbit_dag =
     \<lparr>dag_qregs = [(''q'', [])], dag_cregs = [], dag_qubits = [], dag_clbits = [Clbit 0],
      op_nodes = [], dag_name = Some ''circuit'', dag_metadata = [], dag_calibrations = [],
      dag_duration = None, dag_unit = None\<rparr>"

text \<open>A graph without nodes that has a name, metadata and a calibration table.\<close>

definition calibrated_dag :: dagcircuit where
  "calibrated_dag =
     (one_track_dag [])
       \<lparr>dag_name := Some ''bell'', dag_metadata := [(''experiment'', ''T1'')],
        dag_calibrations := [(''x'', [(([0], []), Some (Resolved 160))])]\<rparr>"

text \<open>A manager without pass sets, a manager with one, and a one-stage staged manager.\<close>

definition empty_pass_manager :: PassManager where
  "empty_pass_manager = \<lparr>pass_sets = [], max_iteration = 1000, pm_property_set = None\<rparr>"

definition one_pass_manager :: PassManager where
  "one_pass_manager =
     \<lparr>pass_sets = [\<lparr>passes = PassList [BasePass ''Unroller''], flow_controllers = []\<rparr>],
      max_iteration = 1000, pm_property_set = None\<rparr>"

definition other_pass_manager :: PassManager where
  "other_pass_manager =
     \<lparr>pass_sets = [\<lparr>passes = PassList [BasePass ''Depth'', BasePass ''FixedPoint''],
                    flow_controllers = [(''do_while'', \<lambda>properties. properties ''depth_fixed_point'' = None)]\<rparr>,
                   \<lparr>passes = PassList [BasePass ''Unroller''], flow_controllers = []\<rparr>],
      max_iteration = 3, pm_property_set = None\<rparr>"

definition staged_one :: StagedPassManager where
  "staged_one =
     \<lparr>pass_sets = [], max_iteration = 1000, pm_property_set = None, stages = [''init''],
      slots = [''pre_init'' \<mapsto> None, ''init'' \<mapsto> None, ''post_init'' \<mapsto> None]\<rparr>"

text \<open>
  A value for the parameter \<open>rpm_run\<close>: a run without passes that names the output as
  the docstring of \<^verbatim>\<open>PassManager.run\<close> says (\<^verbatim>\<open>output_name\<close>, or the name of the input
  when it is \<^verbatim>\<open>None\<close>) and leaves an empty property set.
\<close>

definition renaming_run :: "(dagcircuit, unit) rpm_run" where
  "renaming_run rpm circuit output_name callback =
     Inr (circuit\<lparr>dag_name := (case output_name of None \<Rightarrow> dag_name circuit | Some n \<Rightarrow> Some n)\<rparr>,
          Map.empty)"

text \<open>A pass that counts its runs in the graph, here a number.\<close>

definition counting_pass :: "nat pass_run" where
  "counting_pass s = Inr (Suc (fst s), snd s)"

section \<open>Properties of the scheduling passes\<close>

subsection \<open>No iteration of the loop completes\<close>

lemma asap_node_fails: "asap_node dag bi tu node st \<noteq> Inr st'"
  by (simp add: asap_node_def split: sum.splits)

lemma alap_node_fails: "alap_node dag bi tu node st \<noteq> Inr st'"
  by (simp add: alap_node_def split: sum.splits)

lemma schedule_loop_asap:
  "schedule_loop (asap_node dag bi tu) nodes st = Inr st' \<Longrightarrow> nodes = [] \<and> st' = st"
  by (cases nodes) (auto simp: asap_node_fails split: sum.splits)

lemma schedule_loop_alap:
  "schedule_loop (alap_node dag bi tu) nodes st = Inr st' \<Longrightarrow> nodes = [] \<and> st' = st"
  by (cases nodes) (auto simp: alap_node_fails split: sum.splits)

lemma ASAP_run_Inr_no_nodes: "ASAP_run ps dag = Inr a \<Longrightarrow> op_nodes dag = []"
  by (auto simp: ASAP_run_def Let_def split: if_splits sum.splits dest: schedule_loop_asap)

lemma ALAP_run_Inr_no_nodes: "ALAP_run ps dag = Inr a \<Longrightarrow> op_nodes dag = []"
  by (auto simp: ALAP_run_def Let_def split: if_splits sum.splits dest: schedule_loop_alap)

subsection \<open>A graph without nodes\<close>

lemma fold_max_zero: "\<forall>x \<in> set xs. x = (0::int) \<Longrightarrow> fold max xs 0 = 0"
  by (induction xs) auto

lemma py_max_zeros:
  "\<forall>x \<in> set xs. x = (0::int) \<Longrightarrow>
   py_max xs = (if xs = [] then Inl (ValueError ''max() arg is an empty sequence'') else Inr 0)"
  by (cases xs) (auto simp: fold_max_zero)

lemma initial_idle_Nil: "initial_idle dag = [] \<longleftrightarrow> dag_qubits dag @ dag_clbits dag = []"
  by (auto simp: initial_idle_def)

lemma py_max_initial_idle:
  "py_max (map snd (initial_idle dag)) =
     (if dag_qubits dag @ dag_clbits dag = []
      then Inl (ValueError ''max() arg is an empty sequence'') else Inr 0)"
proof -
  have "\<forall>x \<in> set (map snd (initial_idle dag)). x = 0"
    by (auto simp: initial_idle_def)
  then have "py_max (map snd (initial_idle dag)) =
      (if map snd (initial_idle dag) = []
       then Inl (ValueError ''max() arg is an empty sequence'') else Inr 0)"
    by (rule py_max_zeros)
  then show ?thesis
    using initial_idle_Nil [of dag] by simp
qed

lemma fold_pad_back_zero:
  "\<forall>x \<in> set items. snd x = 0 \<Longrightarrow> fold (pad_back 0 tu) items d = d"
  by (induction items arbitrary: d) (auto simp: pad_back_def)

lemma fold_pad_front_zero:
  "\<forall>x \<in> set items. snd x = 0 \<Longrightarrow> fold (pad_front 0 tu) items d = d"
  by (induction items arbitrary: d) (auto simp: pad_front_def)

lemma initial_idle_zero: "\<forall>x \<in> set (initial_idle dag). snd x = 0"
  by (auto simp: initial_idle_def)

lemma ASAP_run_no_nodes:
  "op_nodes dag = [] \<Longrightarrow> ASAP_run ps dag =
     (if length (dag_qregs dag) \<noteq> 1 \<or> map_of (dag_qregs dag) ''q'' = None
      then Inl (TranspilerError ''ASAP schedule runs on physical circuits only'')
      else if dag_qubits dag @ dag_clbits dag = []
      then Inl (ValueError ''max() arg is an empty sequence'')
      else Inr ((new_dag (initial_state dag))
                  \<lparr>dag_name := dag_name dag, dag_metadata := dag_metadata dag,
                   dag_calibrations := dag_calibrations dag, dag_duration := Some 0,
                   dag_unit := ps ''time_unit''\<rparr>))"
  using fold_pad_back_zero [OF initial_idle_zero, of _ dag]
  by (simp add: ASAP_run_def py_max_initial_idle initial_state_def)

lemma ALAP_run_no_nodes:
  "op_nodes dag = [] \<Longrightarrow> ALAP_run ps dag =
     (if length (dag_qregs dag) \<noteq> 1 \<or> map_of (dag_qregs dag) ''q'' = None
      then Inl (TranspilerError ''ALAP schedule runs on physical circuits only'')
      else if dag_qubits dag @ dag_clbits dag = []
      then Inl (ValueError ''max() arg is an empty sequence'')
      else Inr ((new_dag (initial_state dag))
                  \<lparr>dag_name := dag_name dag, dag_metadata := dag_metadata dag,
                   dag_calibrations := dag_calibrations dag, dag_duration := Some 0,
                   dag_unit := ps ''time_unit''\<rparr>))"
  using fold_pad_front_zero [OF initial_idle_zero, of _ dag]
  by (simp add: ALAP_run_def py_max_initial_idle initial_state_def)

text \<open>
  A pass that returns a graph was given a graph without nodes, and returns the empty
  graph over the same register groups, with span 0.
\<close>

lemma ASAP_run_Inr:
  assumes "ASAP_run ps dag = Inr a"
  shows "a = (new_dag (initial_state dag))
                  \<lparr>dag_name := dag_name dag, dag_metadata := dag_metadata dag,
                   dag_calibrations := dag_calibrations dag, dag_duration := Some 0,
                   dag_unit := ps ''time_unit''\<rparr>"
  using assms ASAP_run_no_nodes [OF ASAP_run_Inr_no_nodes [OF assms], of ps]
  by (simp split: if_splits)

lemma ALAP_run_Inr:
  assumes "ALAP_run ps dag = Inr a"
  shows "a = (new_dag (initial_state dag))
                  \<lparr>dag_name := dag_name dag, dag_metadata := dag_metadata dag,
                   dag_calibrations := dag_calibrations dag, dag_duration := Some 0,
                   dag_unit := ps ''time_unit''\<rparr>"
  using assms ALAP_run_no_nodes [OF ALAP_run_Inr_no_nodes [OF assms], of ps]
  by (simp split: if_splits)

subsection \<open>The first node visited decides the exception\<close>

lemma ASAP_first_node_with_duration:
  assumes "length (dag_qregs dag) = 1" and "map_of (dag_qregs dag) ''q'' \<noteq> None"
    and "op_nodes dag = node # rest" and "op_duration (node_op node) = Some d"
  shows "ASAP_run ps dag = Inl (NameError ''ParameterExpression'')"
  using assms by (simp add: ASAP_run_def asap_node_def validate_duration_def)

lemma ASAP_first_node_without_duration:
  assumes "length (dag_qregs dag) = 1" and "map_of (dag_qregs dag) ''q'' \<noteq> None"
    and "op_nodes dag = node # rest" and "op_duration (node_op node) = None"
    and "lookup_indices (make_bit_indices (dag_qubits dag)) (qargs node) = Inr indices"
    and "\<not> has_calibration_for dag (make_bit_indices (dag_qubits dag)) node"
  shows "ASAP_run ps dag =
     Inl (TranspilerError (''Duration of '' @ op_name (node_op node) @ '' on qubits '' @
                           show_indices indices @ '' is not found.''))"
  using assms by (simp add: ASAP_run_def asap_node_def validate_duration_def)

lemma ALAP_last_node_with_duration:
  assumes "length (dag_qregs dag) = 1" and "map_of (dag_qregs dag) ''q'' \<noteq> None"
    and "op_nodes dag = front @ [node]" and "op_duration (node_op node) = Some d"
  shows "ALAP_run ps dag = Inl (NameError ''ParameterExpression'')"
  using assms by (simp add: ALAP_run_def alap_node_def validate_duration_def)

lemma ALAP_last_node_without_duration:
  assumes "length (dag_qregs dag) = 1" and "map_of (dag_qregs dag) ''q'' \<noteq> None"
    and "op_nodes dag = front @ [node]" and "op_duration (node_op node) = None"
    and "lookup_indices (make_bit_indices (dag_qubits dag)) (qargs node) = Inr indices"
    and "\<not> has_calibration_for dag (make_bit_indices (dag_qubits dag)) node"
  shows "ALAP_run ps dag =
     Inl (TranspilerError (''Duration of '' @ op_name (node_op node) @ '' on qubits '' @
                           show_indices indices @ '' is not found.''))"
  using assms by (simp add: ALAP_run_def alap_node_def validate_duration_def)

subsection \<open>The claims about the scheduling passes\<close>



text \<open>
  On a graph without operations a pass returns the empty graph over the register
  groups, with span 0 (\<open>ASAP_run_Inr\<close>, \<open>ALAP_run_Inr\<close>). Even there a second run can
  fail: the new graph has the tracks of the register groups only, so for a graph whose
  register \<^verbatim>\<open>q\<close> is empty and whose one classical track is in no register, the
  second run finds no track and \<^verbatim>\<open>max\<close> raises.
\<close>

lemma rerun_on_loose_clbit_dag_raises:
  "ASAP_run dt_properties loose_clbit_dag =
     Inr (loose_clbit_dag\<lparr>dag_clbits := [], dag_duration := Some 0, dag_unit := Some ''dt''\<rparr>)
   \<and> ASAP_run dt_properties
        (loose_clbit_dag\<lparr>dag_clbits := [], dag_duration := Some 0, dag_unit := Some ''dt''\<rparr>)
      = Inl (ValueError ''max() arg is an empty sequence'')
   \<and> ALAP_run dt_properties loose_clbit_dag =
     Inr (loose_clbit_dag\<lparr>dag_clbits := [], dag_duration := Some 0, dag_unit := Some ''dt''\<rparr>)
   \<and> ALAP_run dt_properties
        (loose_clbit_dag\<lparr>dag_clbits := [], dag_duration := Some 0, dag_unit := Some ''dt''\<rparr>)
      = Inl (ValueError ''max() arg is an empty sequence'')"
  by (simp add: ASAP_run_no_nodes ALAP_run_no_nodes loose_clbit_dag_def initial_state_def
      add_qreg_def DAGCircuit_new_def dt_properties_def)

text \<open>
  Claim C2, at its own input: on the chain A, B, C with durations 10, 20, 10 on one
  track, the earliest-first pass raises \<^verbatim>\<open>NameError\<close> at the first node (line 86),
  where the claim has start times 0, 10, 30 and span 40.
\<close>

theorem asap_chain_raises_NameError:
  "ASAP_run dt_properties chain_dag = Inl (NameError ''ParameterExpression'')"
  by (simp add: ASAP_run_def asap_node_def validate_duration_def chain_dag_def one_track_dag_def
      plain_op_def)

text \<open>The chain passes the check for a physical circuit, and its first node is A.\<close>

theorem asap_chain_raises_NameError_witness:
  "length (dag_qregs chain_dag) = 1
   \<and> map_of (dag_qregs chain_dag) ''q'' = Some [Qubit 0]
   \<and> map (\<lambda>node. (op_name (node_op node), op_duration (node_op node))) (op_nodes chain_dag)
       = [(''A'', Some (Resolved 10)), (''B'', Some (Resolved 20)), (''C'', Some (Resolved 10))]
   \<and> ASAP_run dt_properties chain_dag = Inl (NameError ''ParameterExpression'')"
  using asap_chain_raises_NameError
  by (simp add: chain_dag_def one_track_dag_def plain_op_def)

text \<open>
  Claim C3, at a node whose duration is a parameter expression: both passes raise
  \<^verbatim>\<open>NameError\<close>, where the claim has the resolution error of lines 88 to 91. (For a
  node without duration and without calibration entry that is visited first,
  \<open>ASAP_first_node_without_duration\<close> and \<open>ALAP_last_node_without_duration\<close> give the
  resolution error with the name and the indices.)
\<close>

theorem parameterized_duration_raises_NameError:
  "ASAP_run dt_properties parameterized_dag = Inl (NameError ''ParameterExpression'')
   \<and> ALAP_run dt_properties parameterized_dag = Inl (NameError ''ParameterExpression'')"
  by (simp add: ASAP_run_def ALAP_run_def asap_node_def alap_node_def validate_duration_def
      parameterized_dag_def one_track_dag_def plain_op_def)

theorem parameterized_duration_raises_NameError_witness:
  "length (dag_qregs parameterized_dag) = 1
   \<and> map_of (dag_qregs parameterized_dag) ''q'' = Some [Qubit 0]
   \<and> map (\<lambda>node. op_duration (node_op node)) (op_nodes parameterized_dag)
       = [Some (Parameterized ''t'')]
   \<and> ASAP_run dt_properties parameterized_dag = Inl (NameError ''ParameterExpression'')
   \<and> ALAP_run dt_properties parameterized_dag = Inl (NameError ''ParameterExpression'')"
  using parameterized_duration_raises_NameError
  by (simp add: parameterized_dag_def one_track_dag_def plain_op_def)

text \<open>
  Claim C10. A graph returned by either pass has the name, the metadata and the
  calibration table of the input graph.
\<close>

theorem scheduled_dag_keeps_name_metadata_calibrations:
  "(ASAP_run ps dag = Inr a \<longrightarrow>
      dag_name a = dag_name dag \<and> dag_metadata a = dag_metadata dag
      \<and> dag_calibrations a = dag_calibrations dag)
   \<and> (ALAP_run ps dag = Inr b \<longrightarrow>
      dag_name b = dag_name dag \<and> dag_metadata b = dag_metadata dag
      \<and> dag_calibrations b = dag_calibrations dag)"
  by (auto simp: ASAP_run_def ALAP_run_def Let_def split: if_splits sum.splits)

lemma ASAP_calibrated:
  "ASAP_run dt_properties calibrated_dag =
     Inr (calibrated_dag\<lparr>dag_duration := Some 0, dag_unit := Some ''dt''\<rparr>)"
  by (simp add: ASAP_run_no_nodes one_track_dag_def calibrated_dag_def initial_state_def
      add_qreg_def DAGCircuit_new_def dt_properties_def)

lemma ALAP_calibrated:
  "ALAP_run dt_properties calibrated_dag =
     Inr (calibrated_dag\<lparr>dag_duration := Some 0, dag_unit := Some ''dt''\<rparr>)"
  by (simp add: ALAP_run_no_nodes one_track_dag_def calibrated_dag_def initial_state_def
      add_qreg_def DAGCircuit_new_def dt_properties_def)

theorem scheduled_dag_keeps_name_metadata_calibrations_witness:
  "ASAP_run dt_properties calibrated_dag =
     Inr (calibrated_dag\<lparr>dag_duration := Some 0, dag_unit := Some ''dt''\<rparr>)
   \<and> ALAP_run dt_properties calibrated_dag =
     Inr (calibrated_dag\<lparr>dag_duration := Some 0, dag_unit := Some ''dt''\<rparr>)
   \<and> dag_name (calibrated_dag\<lparr>dag_duration := Some 0, dag_unit := Some ''dt''\<rparr>) = Some ''bell''
   \<and> dag_metadata (calibrated_dag\<lparr>dag_duration := Some 0, dag_unit := Some ''dt''\<rparr>)
       = [(''experiment'', ''T1'')]
   \<and> dag_calibrations (calibrated_dag\<lparr>dag_duration := Some 0, dag_unit := Some ''dt''\<rparr>)
       = [(''x'', [(([0], []), Some (Resolved 160))])]"
  using scheduled_dag_keeps_name_metadata_calibrations
      [of dt_properties calibrated_dag
          "calibrated_dag\<lparr>dag_duration := Some 0, dag_unit := Some ''dt''\<rparr>"
          "calibrated_dag\<lparr>dag_duration := Some 0, dag_unit := Some ''dt''\<rparr>"]
    ASAP_calibrated ALAP_calibrated
  by (simp add: calibrated_dag_def)

section \<open>Properties of the pass manager\<close>

subsection \<open>The iteration ceiling\<close>

lemma run_sequence_total:
  assumes "\<forall>p \<in> set ps. \<forall>s. \<exists>s'. p s = Inr s'"
  shows "\<exists>s'. run_sequence ps s = Inr s'"
  using assms
proof (induction ps arbitrary: s)
  case Nil
  then show ?case by simp
next
  case (Cons p ps)
  from Cons.prems have "\<forall>s. \<exists>s'. p s = Inr s'" by simp
  then obtain s1 where s1: "p s = Inr s1" by blast
  from Cons.prems have "\<forall>q \<in> set ps. \<forall>s. \<exists>s'. q s = Inr s'" by simp
  from Cons.IH [OF this] obtain s2 where "run_sequence ps s1 = Inr s2" by blast
  with s1 show ?case by simp
qed

lemma do_while_always_true:
  assumes "\<forall>properties. predicate properties"
    and "\<forall>p \<in> set ps. \<forall>s. \<exists>s'. p s = Inr s'"
  shows "\<exists>s'. do_while n predicate ps s = Inr (s', n)"
proof (induction n arbitrary: s)
  case 0
  then show ?case by simp
next
  case (Suc n)
  obtain s1 where s1: "run_sequence ps s = Inr s1"
    using run_sequence_total [OF assms(2)] by blast
  obtain s2 where s2: "do_while n predicate ps s1 = Inr (s2, n)"
    using Suc by blast
  have "predicate (snd s1)"
    using assms(1) by blast
  with s1 s2 have "do_while (Suc n) predicate ps s = Inr (s2, Suc n)"
    by simp
  then show ?case by blast
qed

text \<open>The ceiling is never exceeded, whatever the predicate and the passes do.\<close>

lemma do_while_at_most_ceiling:
  "do_while n predicate ps s = Inr (s', k) \<Longrightarrow> k \<le> n"
proof (induction n arbitrary: s k)
  case 0
  then show ?case by simp
next
  case (Suc n)
  then show ?case
    by (fastforce split: sum.splits if_splits prod.splits)
qed

lemma PassManager_append_max_iteration:
  "PassManager_append self p None conditions = Inr r \<Longrightarrow> max_iteration r = max_iteration self"
  by (auto simp: PassManager_append_def split: sum.splits)

lemma PassManager_init_default:
  assumes "PassManager_init ps None = Inr pm"
  shows "max_iteration pm = 1000"
proof (cases ps)
  case None
  with assms show ?thesis
    by (auto simp: PassManager_init_def)
next
  case (Some p)
  with assms have "PassManager_append
      \<lparr>pass_sets = [], max_iteration = 1000, pm_property_set = None\<rparr> p None [] = Inr pm"
    by (simp add: PassManager_init_def)
  from PassManager_append_max_iteration [OF this] show ?thesis by simp
qed

lemma rpm_max_iteration_fold:
  "rpm_max_iteration
     (fold (\<lambda>pass_set. RunningPassManager_append (passes pass_set) (flow_controllers pass_set))
        sets rpm) = rpm_max_iteration rpm"
  by (induction sets arbitrary: rpm) (simp_all add: RunningPassManager_append_def)

lemma rpm_max_iteration_create:
  "rpm_max_iteration (create_running_passmanager pm) = max_iteration pm"
  by (simp add: create_running_passmanager_def rpm_max_iteration_fold RunningPassManager_new_def)

lemma empty_pass_manager_init: "PassManager_init None None = Inr empty_pass_manager"
  by (simp add: PassManager_init_def empty_pass_manager_def)

lemma one_pass_manager_init:
  "PassManager_init (Some (OnePass (BasePass ''Unroller''))) None = Inr one_pass_manager"
  by (simp add: PassManager_init_def PassManager_append_def normalize_passes_def
      one_pass_manager_def)

text \<open>
  Claim C4. A pass set with a \<^verbatim>\<open>repeat_while\<close> predicate that always holds, whose
  passes do not fail, runs its sequence exactly as many times as the iteration ceiling
  the manager hands to the running pass manager, and returns without raising; a
  manager constructed without \<^verbatim>\<open>max_iteration\<close> has the ceiling 1000.
\<close>

theorem do_while_true_stops_at_max_iteration:
  assumes "\<forall>properties. predicate properties"
    and "\<forall>p \<in> set ps. \<forall>s. \<exists>s'. p s = Inr s'"
  shows "(\<exists>s'. run_pass_set (rpm_max_iteration (create_running_passmanager pm))
                 \<lparr>set_passes = ps, set_condition = c, set_repeat_while = Some predicate\<rparr> s
               = Inr (s', max_iteration pm))
         \<and> (\<forall>initial pm0. PassManager_init initial None = Inr pm0 \<longrightarrow> max_iteration pm0 = 1000)"
proof (intro conjI allI impI)
  show "\<exists>s'. run_pass_set (rpm_max_iteration (create_running_passmanager pm))
                 \<lparr>set_passes = ps, set_condition = c, set_repeat_while = Some predicate\<rparr> s
               = Inr (s', max_iteration pm)"
    using do_while_always_true [OF assms, of "max_iteration pm" s]
    by (simp add: run_pass_set_def rpm_max_iteration_create)
next
  fix initial pm0
  assume "PassManager_init initial None = Inr pm0"
  then show "max_iteration pm0 = 1000"
    by (rule PassManager_init_default)
qed

lemma counting_pass_total: "\<forall>p \<in> set [counting_pass]. \<forall>s. \<exists>s'. p s = Inr s'"
  by (simp add: counting_pass_def)

lemma counting_three:
  "run_pass_set 3
     \<lparr>set_passes = [counting_pass], set_condition = None,
      set_repeat_while = Some (\<lambda>properties. True)\<rparr> (0, Map.empty)
   = Inr ((3, Map.empty), 3)"
  by (simp add: run_pass_set_def counting_pass_def numeral_3_eq_3)

theorem do_while_true_stops_at_max_iteration_witness:
  "(\<exists>s'. run_pass_set (rpm_max_iteration (create_running_passmanager empty_pass_manager))
            \<lparr>set_passes = [counting_pass], set_condition = None,
             set_repeat_while = Some (\<lambda>properties. True)\<rparr> (0, Map.empty)
          = Inr (s', 1000))
   \<and> run_pass_set 3
        \<lparr>set_passes = [counting_pass], set_condition = None,
         set_repeat_while = Some (\<lambda>properties. True)\<rparr> (0, Map.empty)
      = Inr ((3, Map.empty), 3)
   \<and> PassManager_init None None = Inr empty_pass_manager
   \<and> max_iteration empty_pass_manager = 1000"
proof -
  have always: "\<forall>properties :: property_set. (\<lambda>properties. True) properties"
    by simp
  note claim = do_while_true_stops_at_max_iteration
    [OF always counting_pass_total, of empty_pass_manager None "(0, Map.empty)"]
  have "max_iteration empty_pass_manager = 1000"
    by (simp add: empty_pass_manager_def)
  with claim counting_three empty_pass_manager_init show ?thesis
    by simp
qed

subsection \<open>Running a manager without pass sets\<close>

lemma create_running_passmanager_empty:
  "pass_sets self = [] \<Longrightarrow>
   create_running_passmanager self = \<lparr>rpm_max_iteration = max_iteration self, working_list = []\<rparr>"
  by (simp add: create_running_passmanager_def RunningPassManager_new_def)

text \<open>
  Claim C5. With zero pass sets, \<^verbatim>\<open>run(circuits)\<close> (no output name, no callback)
  returns its input, one graph or a list, and leaves the manager as it is.
\<close>

theorem run_zero_pass_sets_identity:
  "pass_sets self = [] \<Longrightarrow> PassManager_run rpm_run self cs None None = Inr (cs, self)"
  by (simp add: PassManager_run_def run_with_def)

theorem run_zero_pass_sets_identity_witness:
  "pass_sets empty_pass_manager = []
   \<and> PassManager_run renaming_run empty_pass_manager (OneCircuit chain_dag) None None
       = Inr (OneCircuit chain_dag, empty_pass_manager)"
proof -
  have h: "pass_sets empty_pass_manager = []"
    by (simp add: empty_pass_manager_def)
  show ?thesis
    using h run_zero_pass_sets_identity [OF h, of renaming_run "OneCircuit chain_dag"]
    by simp
qed

text \<open>The same law for a staged manager whose stages flatten to no pass set.\<close>

lemma Staged_run_zero_pass_sets:
  "pass_sets (update_passmanager self) = [] \<Longrightarrow>
   Staged_run rpm_run self cs None None = Inr (cs, update_passmanager self)"
  by (simp add: Staged_run_def run_with_def)

text \<open>
  Claim C9. With zero pass sets, \<^verbatim>\<open>run\<close> returns its input at once when both the
  output name and the callback are \<^verbatim>\<open>None\<close>. When one of them is given, a running pass
  manager is created, with no pass set in it, and the result is what its \<^verbatim>\<open>run\<close>
  returns for the circuit: for one circuit and for a list of one circuit with the
  output name and the callback, for any other list circuit by circuit without them.
\<close>

theorem run_zero_pass_sets_output_name_or_callback:
  assumes "pass_sets self = []"
  shows "(output_name = None \<and> callback = None \<longrightarrow>
            PassManager_run rpm_run self cs output_name callback = Inr (cs, self))
       \<and> (output_name \<noteq> None \<or> callback \<noteq> None \<longrightarrow>
            working_list (create_running_passmanager self) = []
          \<and> PassManager_run rpm_run self (OneCircuit c) output_name callback =
              (case rpm_run (create_running_passmanager self) c output_name callback of
                 Inl e \<Rightarrow> Inl e
               | Inr (result, properties) \<Rightarrow>
                   Inr (OneCircuit result, self\<lparr>pm_property_set := Some properties\<rparr>))
          \<and> PassManager_run rpm_run self (CircuitList [c]) output_name callback =
              (case rpm_run (create_running_passmanager self) c output_name callback of
                 Inl e \<Rightarrow> Inl e
               | Inr (result, properties) \<Rightarrow>
                   Inr (OneCircuit result, self\<lparr>pm_property_set := Some properties\<rparr>))
          \<and> (length l \<noteq> 1 \<longrightarrow>
               PassManager_run rpm_run self (CircuitList l) output_name callback =
                 (case in_parallel_map
                         (\<lambda>circuit.
                            case rpm_run (create_running_passmanager self) circuit None None of
                              Inl e \<Rightarrow> Inl e
                            | Inr (result, properties) \<Rightarrow> Inr result) l of
                    Inl e \<Rightarrow> Inl e
                  | Inr results \<Rightarrow> Inr (CircuitList results, self))))"
proof (intro conjI impI)
  assume "output_name = None \<and> callback = None"
  with assms show "PassManager_run rpm_run self cs output_name callback = Inr (cs, self)"
    by (simp add: PassManager_run_def run_with_def)
next
  show "working_list (create_running_passmanager self) = []"
    using assms by (simp add: create_running_passmanager_empty)
next
  assume "output_name \<noteq> None \<or> callback \<noteq> None"
  then show "PassManager_run rpm_run self (OneCircuit c) output_name callback =
              (case rpm_run (create_running_passmanager self) c output_name callback of
                 Inl e \<Rightarrow> Inl e
               | Inr (result, properties) \<Rightarrow>
                   Inr (OneCircuit result, self\<lparr>pm_property_set := Some properties\<rparr>))"
    by (auto simp: PassManager_run_def run_with_def run_single_circuit_def
        split: sum.splits prod.splits)
next
  assume "output_name \<noteq> None \<or> callback \<noteq> None"
  then show "PassManager_run rpm_run self (CircuitList [c]) output_name callback =
              (case rpm_run (create_running_passmanager self) c output_name callback of
                 Inl e \<Rightarrow> Inl e
               | Inr (result, properties) \<Rightarrow>
                   Inr (OneCircuit result, self\<lparr>pm_property_set := Some properties\<rparr>))"
    by (auto simp: PassManager_run_def run_with_def run_single_circuit_def
        split: sum.splits prod.splits)
next
  assume given: "output_name \<noteq> None \<or> callback \<noteq> None" and len: "length l \<noteq> 1"
  from given len show "PassManager_run rpm_run self (CircuitList l) output_name callback =
                 (case in_parallel_map
                         (\<lambda>circuit.
                            case rpm_run (create_running_passmanager self) circuit None None of
                              Inl e \<Rightarrow> Inl e
                            | Inr (result, properties) \<Rightarrow> Inr result) l of
                    Inl e \<Rightarrow> Inl e
                  | Inr results \<Rightarrow> Inr (CircuitList results, self))"
    by (auto simp: PassManager_run_def run_with_def run_several_circuits_def split: list.splits)
qed

theorem run_zero_pass_sets_output_name_or_callback_witness:
  "pass_sets empty_pass_manager = []
   \<and> PassManager_run renaming_run empty_pass_manager (OneCircuit (one_track_dag [])) None None
       = Inr (OneCircuit (one_track_dag []), empty_pass_manager)
   \<and> working_list (create_running_passmanager empty_pass_manager) = []
   \<and> PassManager_run renaming_run empty_pass_manager (OneCircuit (one_track_dag []))
         (Some ''out'') None
       = Inr (OneCircuit ((one_track_dag [])\<lparr>dag_name := Some ''out''\<rparr>),
              empty_pass_manager\<lparr>pm_property_set := Some Map.empty\<rparr>)
   \<and> (one_track_dag [])\<lparr>dag_name := Some ''out''\<rparr> \<noteq> one_track_dag []"
proof -
  have h: "pass_sets empty_pass_manager = []"
    by (simp add: empty_pass_manager_def)
  note none = run_zero_pass_sets_output_name_or_callback
    [OF h, of None None renaming_run "OneCircuit (one_track_dag [])"]
  note given = run_zero_pass_sets_output_name_or_callback
    [OF h, of "Some ''out''" None renaming_run _ "one_track_dag []"]
  have "(one_track_dag [])\<lparr>dag_name := Some ''out''\<rparr> \<noteq> one_track_dag []"
    by (simp add: one_track_dag_def)
  with h none given show ?thesis
    by (simp add: renaming_run_def)
qed

subsection \<open>Adding two managers\<close>

text \<open>
  Claim C8. The sum of two pass managers is a manager whose pass sets are those of the
  first followed by those of the second, each with its passes and its flow-controller
  conditions, in order and with repetitions.
\<close>

theorem add_concatenates_pass_sets:
  "\<exists>r. PassManager_add self (IsPassManager other) = Inr r
       \<and> pass_sets r = pass_sets self @ pass_sets other
       \<and> map passes (pass_sets r) = map passes (pass_sets self) @ map passes (pass_sets other)
       \<and> map flow_controllers (pass_sets r) =
           map flow_controllers (pass_sets self) @ map flow_controllers (pass_sets other)
       \<and> max_iteration r = max_iteration self"
  by (simp add: PassManager_add_def PassManager_init_def)

theorem add_concatenates_pass_sets_witness:
  "PassManager_add one_pass_manager (IsPassManager other_pass_manager) =
     Inr \<lparr>pass_sets = pass_sets one_pass_manager @ pass_sets other_pass_manager,
          max_iteration = 1000, pm_property_set = None\<rparr>
   \<and> map passes (pass_sets one_pass_manager @ pass_sets other_pass_manager) =
       [PassList [BasePass ''Unroller''],
        PassList [BasePass ''Depth'', BasePass ''FixedPoint''],
        PassList [BasePass ''Unroller'']]"
  using add_concatenates_pass_sets [of one_pass_manager other_pass_manager]
  by (simp add: PassManager_add_def PassManager_init_def one_pass_manager_def
      other_pass_manager_def)

section \<open>Properties of the staged pass manager\<close>

lemma slots_update_passmanager: "slots (update_passmanager self) = slots self"
  by (simp add: update_passmanager_def)

lemma slots_Staged_setattr: "slots (Staged_setattr self attr v) = (slots self)(attr \<mapsto> v)"
  by (simp add: Staged_setattr_def Let_def update_passmanager_def)

lemma stages_Staged_setattr: "stages (Staged_setattr self attr v) = stages self"
  by (simp add: Staged_setattr_def Let_def update_passmanager_def)

text \<open>Flattening depends on the stages and the slots only, so it is idempotent.\<close>

lemma update_stage_cong:
  "slots a = slots b \<Longrightarrow> update_stage a = update_stage b"
  by (auto simp: update_stage_def getattr_slot_def fun_eq_iff)

lemma update_passmanager_idem:
  "update_passmanager (update_passmanager self) = update_passmanager self"
proof -
  have "update_stage (update_passmanager self) = update_stage self"
    by (rule update_stage_cong) (simp add: slots_update_passmanager)
  then show ?thesis
    by (simp add: update_passmanager_def)
qed

text \<open>
  Assigning the slot named as a stage flattens at once; assigning the \<^verbatim>\<open>pre_\<close> or the
  \<^verbatim>\<open>post_\<close> slot of a declared stage only stores the value.
\<close>

lemma Staged_setattr_stage:
  "attr \<in> set (stages self) \<Longrightarrow>
   Staged_setattr self attr v = update_passmanager (self\<lparr>slots := (slots self)(attr \<mapsto> v)\<rparr>)"
  by (simp add: Staged_setattr_def)

lemma Staged_setattr_pre_declared:
  "stage \<in> set (stages self) \<Longrightarrow> ''pre_'' @ stage \<notin> set (stages self) \<Longrightarrow>
   Staged_setattr self (''pre_'' @ stage) v = self\<lparr>slots := (slots self)(''pre_'' @ stage \<mapsto> v)\<rparr>"
  by (simp add: Staged_setattr_def startswith_def)

lemma Staged_setattr_post_declared:
  "stage \<in> set (stages self) \<Longrightarrow> ''post_'' @ stage \<notin> set (stages self) \<Longrightarrow>
   Staged_setattr self (''post_'' @ stage) v = self\<lparr>slots := (slots self)(''post_'' @ stage \<mapsto> v)\<rparr>"
  by (simp add: Staged_setattr_def startswith_def)

text \<open>\<^verbatim>\<open>run\<close> flattens before it runs, whatever the assignments left.\<close>

lemma Staged_run_flattens:
  "Staged_run rpm_run self cs output_name callback =
   Staged_run rpm_run (update_passmanager self) cs output_name callback"
  by (simp add: Staged_run_def update_passmanager_idem)

lemma staged_one_init: "Staged_init (Some [''init'']) [] = Inr staged_one"
  by (simp add: Staged_init_def invalid_stage_def invalid_stage_char_def init_stage_slots_def
      Staged_setattr_def startswith_def update_passmanager_def update_stage_def extend_with_def
      getattr_slot_def staged_one_def Let_def)

text \<open>
  Claim C6, at the staged manager with the one stage \<^verbatim>\<open>init\<close>: after the assignment of
  a manager with one pass set to \<^verbatim>\<open>pre_init\<close>, the pass sets are still empty, where the
  flattening of the slots is that pass set. The condition of \<^verbatim>\<open>__setattr__\<close> tests
  \<^verbatim>\<open>attr[4:] not in self.stages\<close>.
\<close>

theorem staged_pre_slot_assignment_not_flattened:
  "Staged_init (Some [''init'']) [] = Inr staged_one
   \<and> PassManager_init (Some (OnePass (BasePass ''Unroller''))) None = Inr one_pass_manager
   \<and> pass_sets (Staged_setattr staged_one ''pre_init'' (Some one_pass_manager)) = []
   \<and> pass_sets (update_passmanager (Staged_setattr staged_one ''pre_init'' (Some one_pass_manager)))
       = pass_sets one_pass_manager
   \<and> pass_sets one_pass_manager \<noteq> []"
  using staged_one_init one_pass_manager_init
  by (simp add: Staged_setattr_def startswith_def update_passmanager_def update_stage_def
      extend_with_def getattr_slot_def staged_one_def one_pass_manager_def Let_def)

text \<open>
  At the same input, the assignment of the slot \<^verbatim>\<open>init\<close> flattens at once, and the stale
  list after the assignment of \<^verbatim>\<open>pre_init\<close> is replaced when \<^verbatim>\<open>run\<close> flattens.
\<close>

theorem staged_pre_slot_assignment_not_flattened_witness:
  "''init'' \<in> set (stages staged_one)
   \<and> pass_sets (Staged_setattr staged_one ''init'' (Some one_pass_manager))
       = pass_sets one_pass_manager
   \<and> pass_sets (Staged_setattr staged_one ''pre_init'' (Some one_pass_manager)) = []
   \<and> pass_sets (update_passmanager (Staged_setattr staged_one ''pre_init'' (Some one_pass_manager)))
       = pass_sets one_pass_manager"
  using staged_pre_slot_assignment_not_flattened
  by (simp add: Staged_setattr_def startswith_def update_passmanager_def update_stage_def
      extend_with_def getattr_slot_def staged_one_def one_pass_manager_def Let_def)

text \<open>
  Claim C7. On a staged manager, \<^verbatim>\<open>append\<close>, \<^verbatim>\<open>replace\<close>, \<^verbatim>\<open>remove\<close>, indexed assignment
  and \<^verbatim>\<open>+\<close> raise for all arguments; the assignment of a slot is carried out.
\<close>

theorem staged_pass_level_mutation_raises:
  "Staged_append self ps max_iter conditions = Inl NotImplementedError
   \<and> Staged_replace self index ps max_iter conditions = Inl NotImplementedError
   \<and> Staged_remove self index = Inl NotImplementedError
   \<and> Staged_setitem self index ps = Inl NotImplementedError
   \<and> Staged_add self other = Inl NotImplementedError
   \<and> getattr_slot (Staged_setattr self attr v) attr = v"
  by (simp add: Staged_append_def Staged_replace_def Staged_remove_def Staged_setitem_def
      Staged_add_def getattr_slot_def slots_Staged_setattr)

theorem staged_pass_level_mutation_raises_witness:
  "Staged_append staged_one (OnePass (BasePass ''Unroller'')) None [] = Inl NotImplementedError
   \<and> Staged_replace staged_one 0 (OnePass (BasePass ''Unroller'')) None [] = Inl NotImplementedError
   \<and> Staged_remove staged_one 0 = Inl NotImplementedError
   \<and> Staged_setitem staged_one 0 (OnePass (BasePass ''Unroller'')) = Inl NotImplementedError
   \<and> Staged_add staged_one (IsPassManager one_pass_manager) = Inl NotImplementedError
   \<and> getattr_slot (Staged_setattr staged_one ''init'' (Some one_pass_manager)) ''init''
       = Some one_pass_manager"
  using staged_pass_level_mutation_raises
    [of staged_one "OnePass (BasePass ''Unroller'')" None "[]" 0
        "IsPassManager one_pass_manager" "''init''" "Some one_pass_manager"]
  by simp

end
